theory Spec2Isabelle
  imports Main
begin

text \<open>
  A model of the gateway (api_gateway/index.js: credential check, forwarder, aggregator,
  circuits, rate limiters) and of the users service (service_users/index.js), with the entry
  points of the orders service, followed by the properties proved about them. Handlers are
  functions from the request and the state they read to the response and the state they
  leave; what a library decides (tokens, hashes, validation, the HTTP client) is a parameter
  or is described where it is introduced.
\<close>

section \<open>Envelopes, promises and requests\<close>

text \<open>
  The uniform response shape exchanged between the gateway and the two backends:
  \<^verbatim>\<open>{ success, data?, error?: { code, message } }\<close>. A field that the code reads
  with \<^verbatim>\<open>?.\<close> or defaults with \<^verbatim>\<open>||\<close> is an option.
\<close>

record error_body =
  code :: string
  message :: string

record 'a envelope =
  success :: bool
  data :: "'a option"
  error :: "error_body option"

text \<open>How a promise settles (\<^verbatim>\<open>Promise.allSettled\<close>, or an awaited call that may throw).\<close>

datatype 'a settled = Fulfilled 'a | Rejected

text \<open>The decoded token payload that \<^verbatim>\<open>verifyToken\<close> stores in \<^verbatim>\<open>req.user\<close>.\<close>

record identity =
  ident_id :: string
  email :: string
  roles :: "string list option"

text \<open>An inbound request of the gateway, after the request-id middleware has set \<^verbatim>\<open>req.id\<close>.\<close>

record request =
  req_id :: string
  req_method :: string
  authorization :: "string option"
  req_body :: string
  req_query :: "(string \<times> string) list"
  user :: "identity option"

text \<open>The options object handed to \<^verbatim>\<open>circuit.fire(url, options)\<close>.\<close>

record fwd_headers =
  x_request_id :: string
  content_type :: "string option"
  hdr_authorization :: "string option"

record options =
  opt_method :: string
  opt_headers :: fwd_headers
  opt_data :: "string option"
  opt_params :: "(string \<times> string) list"

datatype backend = Users | Orders

record call =
  target :: backend
  url :: string
  opts :: options

text \<open>
  A circuit, seen from its callers: what the promise returned by \<^verbatim>\<open>fire\<close> settles to.
\<close>

type_synonym 'a circuit = "string \<Rightarrow> options \<Rightarrow> 'a envelope settled"

record 'a response =
  status :: nat
  body :: "'a envelope"

text \<open>What a handler did: the response it sent and the breaker invocations it made, in order.\<close>

record 'a handled =
  response :: "'a response"
  fired :: "call list"

definition failure :: "nat \<Rightarrow> string \<Rightarrow> string \<Rightarrow> 'a response" where
  "failure st c m =
     \<lparr>status = st, body = \<lparr>success = False, data = None, error = Some \<lparr>code = c, message = m\<rparr>\<rparr>\<rparr>"

definition ok :: "nat \<Rightarrow> 'a \<Rightarrow> 'a response" where
  "ok st d = \<lparr>status = st, body = \<lparr>success = True, data = Some d, error = None\<rparr>\<rparr>"

section \<open>Gateway: credential check\<close>

definition startsWith :: "string \<Rightarrow> string \<Rightarrow> bool" where
  "startsWith s p = (take (length p) s = p)"

text \<open>
  \<^verbatim>\<open>verifyToken\<close> (api_gateway/index.js). \<open>verify\<close> stands for
  \<^verbatim>\<open>jwt.verify(token, JWT_SECRET)\<close>: \<open>None\<close> when it throws.
\<close>

definition verifyToken :: "(string \<Rightarrow> identity option) \<Rightarrow> request \<Rightarrow> 'a response + request" where
  "verifyToken verify req =
     (case authorization req of
        None \<Rightarrow> Inl (failure 401 ''UNAUTHORIZED'' ''No token provided'')
      | Some authHeader \<Rightarrow>
          if authHeader = [] \<or> \<not> startsWith authHeader ''Bearer ''
          then Inl (failure 401 ''UNAUTHORIZED'' ''No token provided'')
          else (case verify (drop 7 authHeader) of
                  None \<Rightarrow> Inl (failure 401 ''INVALID_TOKEN'' ''Invalid or expired token'')
                | Some decoded \<Rightarrow> Inr (req\<lparr>user := Some decoded\<rparr>)))"

section \<open>Gateway: request forwarder\<close>

definition error_code :: "'a envelope \<Rightarrow> string option" where
  "error_code result = (case error result of None \<Rightarrow> None | Some e \<Rightarrow> Some (code e))"

text \<open>The ternary chain of \<^verbatim>\<open>forwardRequest\<close>, in the source's order.\<close>

definition statusCode :: "'a envelope \<Rightarrow> nat" where
  "statusCode result =
     (if success result then 200
      else if error_code result = Some ''VALIDATION_ERROR'' then 400
      else if error_code result = Some ''UNAUTHORIZED'' then 401
      else if error_code result = Some ''FORBIDDEN'' then 403
      else if error_code result = Some ''USER_NOT_FOUND'' \<or> error_code result = Some ''ORDER_NOT_FOUND'' then 404
      else if error_code result = Some ''USER_EXISTS'' \<or> error_code result = Some ''EMAIL_EXISTS'' then 409
      else 500)"

definition forward_options :: "request \<Rightarrow> options" where
  "forward_options req =
     \<lparr>opt_method = req_method req,
      opt_headers =
        \<lparr>x_request_id = req_id req,
         content_type = Some ''application/json'',
         hdr_authorization =
           (case authorization req of
              None \<Rightarrow> None
            | Some a \<Rightarrow> if a = [] then None else Some a)\<rparr>,
      opt_data =
        (if req_method req \<noteq> ''GET'' \<and> req_method req \<noteq> ''HEAD'' then Some (req_body req) else None),
      opt_params = req_query req\<rparr>"

text \<open>
  \<^verbatim>\<open>forwardRequest(circuit, url, req, res)\<close>: one breaker invocation, then the status
  table; the \<^verbatim>\<open>catch\<close> block answers 503 when the awaited \<^verbatim>\<open>fire\<close> rejects.
\<close>

definition forwardRequest :: "backend \<Rightarrow> 'a circuit \<Rightarrow> string \<Rightarrow> request \<Rightarrow> 'a handled" where
  "forwardRequest b circuit u req =
     (let options = forward_options req
      in case circuit u options of
           Fulfilled result \<Rightarrow>
             \<lparr>response = \<lparr>status = statusCode result, body = result\<rparr>,
              fired = [\<lparr>target = b, url = u, opts = options\<rparr>]\<rparr>
         | Rejected \<Rightarrow>
             \<lparr>response = failure 503 ''SERVICE_UNAVAILABLE'' ''Service temporarily unavailable'',
              fired = [\<lparr>target = b, url = u, opts = options\<rparr>]\<rparr>)"

text \<open>The fallback functions registered on the two circuits.\<close>

definition usersCircuit_fallback :: "'a envelope" where
  "usersCircuit_fallback =
     \<lparr>success = False, data = None,
      error = Some \<lparr>code = ''SERVICE_UNAVAILABLE'', message = ''Users service temporarily unavailable''\<rparr>\<rparr>"

definition ordersCircuit_fallback :: "'a envelope" where
  "ordersCircuit_fallback =
     \<lparr>success = False, data = None,
      error = Some \<lparr>code = ''SERVICE_UNAVAILABLE'', message = ''Orders service temporarily unavailable''\<rparr>\<rparr>"

text \<open>
  A protected forwarded route, as \<^verbatim>\<open>app.get('/v1/users/profile', verifyToken, ...)\<close>:
  the credential check, then the forwarder.
\<close>

definition protected_route ::
  "(string \<Rightarrow> identity option) \<Rightarrow> backend \<Rightarrow> 'a circuit \<Rightarrow> string \<Rightarrow> request \<Rightarrow> 'a handled" where
  "protected_route verify b circuit u req =
     (case verifyToken verify req of
        Inl denied \<Rightarrow> \<lparr>response = denied, fired = []\<rparr>
      | Inr req' \<Rightarrow> forwardRequest b circuit u req')"

definition get_users_profile ::
  "(string \<Rightarrow> identity option) \<Rightarrow> 'a circuit \<Rightarrow> request \<Rightarrow> 'a handled" where
  "get_users_profile verify circuit req =
     protected_route verify Users circuit ''/v1/users/profile'' req"

text \<open>
  The error codes that the ternary chain names, and the codes that have a row in the status
  table of the specification (section 6), which lists three more.
\<close>

definition status_rows :: "string list" where
  "status_rows =
     [''VALIDATION_ERROR'', ''UNAUTHORIZED'', ''FORBIDDEN'', ''USER_NOT_FOUND'',
      ''ORDER_NOT_FOUND'', ''USER_EXISTS'', ''EMAIL_EXISTS'']"

definition table_codes :: "string list" where
  "table_codes =
     [''VALIDATION_ERROR'', ''UNAUTHORIZED'', ''INVALID_TOKEN'', ''FORBIDDEN'', ''USER_NOT_FOUND'',
      ''ORDER_NOT_FOUND'', ''USER_EXISTS'', ''EMAIL_EXISTS'', ''SERVICE_UNAVAILABLE'',
      ''RATE_LIMIT_EXCEEDED'']"

section \<open>Gateway: plain objects used as dictionaries\<close>

text \<open>
  The aggregator counts into an object literal \<^verbatim>\<open>{}\<close>. Reading \<^verbatim>\<open>acc[k]\<close> finds an own
  property first and otherwise what every object literal inherits from
  \<^verbatim>\<open>Object.prototype\<close>. The inherited names (the platform's, not the
  repository's) are listed here; all of them hold functions or objects, which are truthy.
\<close>

definition object_prototype_names :: "string list" where
  "object_prototype_names =
     [''constructor'', ''__defineGetter__'', ''__defineSetter__'', ''hasOwnProperty'',
      ''__lookupGetter__'', ''__lookupSetter__'', ''isPrototypeOf'', ''propertyIsEnumerable'',
      ''toString'', ''valueOf'', ''__proto__'', ''toLocaleString'']"

datatype 'a js_prop = Own 'a | Inherited | Undefined

definition js_get :: "(string \<times> 'a) list \<Rightarrow> string \<Rightarrow> 'a js_prop" where
  "js_get obj k =
     (case map_of obj k of
        Some v \<Rightarrow> Own v
      | None \<Rightarrow> if k \<in> set object_prototype_names then Inherited else Undefined)"

text \<open>
  \<^verbatim>\<open>obj[k] = v\<close>: an existing own property keeps its place, a new one goes last; an
  assignment of a primitive to \<^verbatim>\<open>__proto__\<close> is ignored by the inherited setter.
\<close>

fun js_put :: "(string \<times> 'a) list \<Rightarrow> string \<Rightarrow> 'a \<Rightarrow> (string \<times> 'a) list" where
  "js_put [] k v = [(k, v)]"
| "js_put ((k', v') # obj) k v = (if k' = k then (k, v) # obj else (k', v') # js_put obj k v)"

definition js_set :: "(string \<times> 'a) list \<Rightarrow> string \<Rightarrow> 'a \<Rightarrow> (string \<times> 'a) list" where
  "js_set obj k v = (if k = ''__proto__'' then obj else js_put obj k v)"

text \<open>
  A value stored in the histogram: a number, or the string that \<^verbatim>\<open>+ 1\<close> makes of a
  function, an object or a string.
\<close>

datatype tally = Number nat | Text

text \<open>\<^verbatim>\<open>(acc[k] || 0) + 1\<close>\<close>

definition or_zero_plus_one :: "tally js_prop \<Rightarrow> tally" where
  "or_zero_plus_one p =
     (case p of
        Undefined \<Rightarrow> Number 1
      | Own (Number n) \<Rightarrow> Number (n + 1)
      | Own Text \<Rightarrow> Text
      | Inherited \<Rightarrow> Text)"

section \<open>Gateway: aggregator\<close>

record order =
  order_id :: string
  userId :: string
  order_status :: string

record pagination =
  total :: "nat option"

record orders_data =
  orders :: "order list option"
  orders_pagination :: "pagination option"

record orders_summary =
  summary_total :: nat
  byStatus :: "(string \<times> tally) list"

record 'u details =
  details_user :: "'u option"
  details_orders :: "order list"
  ordersSummary :: orders_summary

text \<open>The reducer of the handler: \<^verbatim>\<open>acc[order.status] = (acc[order.status] || 0) + 1\<close>.\<close>

definition count_status :: "(string \<times> tally) list \<Rightarrow> order \<Rightarrow> (string \<times> tally) list" where
  "count_status acc order =
     js_set acc (order_status order) (or_zero_plus_one (js_get acc (order_status order)))"

definition histogram :: "order list \<Rightarrow> (string \<times> tally) list" where
  "histogram os = foldl count_status [] os"

text \<open>Reading the histogram: the number an entry holds, and the sum over all entries.\<close>

definition tally_value :: "tally \<Rightarrow> nat" where
  "tally_value t = (case t of Number n \<Rightarrow> n | Text \<Rightarrow> 0)"

definition tally_sum :: "(string \<times> tally) list \<Rightarrow> nat" where
  "tally_sum obj = sum_list (map (\<lambda>p. tally_value (snd p)) obj)"

text \<open>
  Two notions for reasoning about the reducer: an entry after \<open>c\<close> more orders with its
  status were counted, and an accumulator that holds positive numbers only.
\<close>

definition bumped :: "tally option \<Rightarrow> nat \<Rightarrow> tally option" where
  "bumped cur c =
     (case cur of
        None \<Rightarrow> if c = 0 then None else Some (Number c)
      | Some (Number n) \<Rightarrow> Some (Number (n + c))
      | Some Text \<Rightarrow> Some Text)"

definition numbers_only :: "(string \<times> tally) list \<Rightarrow> bool" where
  "numbers_only obj = (\<forall>p \<in> set obj. \<exists>n. snd p = Number n \<and> 0 < n)"

definition includes_admin :: "string list option \<Rightarrow> bool" where
  "includes_admin rs = (case rs of None \<Rightarrow> False | Some xs \<Rightarrow> ''admin'' \<in> set xs)"

definition empty_orders :: orders_data where
  "empty_orders = \<lparr>orders = Some [], orders_pagination = Some \<lparr>total = Some 0\<rparr>\<rparr>"

definition internal_error :: "'a response" where
  "internal_error = failure 500 ''INTERNAL_ERROR'' ''Internal server error''"

definition details_body :: "'u option \<Rightarrow> orders_data \<Rightarrow> 'u details" where
  "details_body userData ordersData =
     (let os = (case orders ordersData of None \<Rightarrow> [] | Some xs \<Rightarrow> xs)
      in \<lparr>details_user = userData,
          details_orders = os,
          ordersSummary =
            \<lparr>summary_total =
               (case orders_pagination ordersData of
                  None \<Rightarrow> 0
                | Some p \<Rightarrow> (case total p of None \<Rightarrow> 0 | Some n \<Rightarrow> n)),
             byStatus = histogram os\<rparr>\<rparr>)"

text \<open>The two sub-requests of the aggregator; both carry the same two headers.\<close>

definition details_headers :: "request \<Rightarrow> fwd_headers" where
  "details_headers req =
     \<lparr>x_request_id = req_id req, content_type = None, hdr_authorization = authorization req\<rparr>"

definition userCall :: "request \<Rightarrow> string \<Rightarrow> call" where
  "userCall req uid =
     \<lparr>target = Users, url = ''/v1/users/'' @ uid,
      opts = \<lparr>opt_method = ''GET'', opt_headers = details_headers req,
              opt_data = None, opt_params = []\<rparr>\<rparr>"

definition ordersCall :: "request \<Rightarrow> string \<Rightarrow> call" where
  "ordersCall req uid =
     \<lparr>target = Orders, url = ''/v1/orders'',
      opts = \<lparr>opt_method = ''GET'', opt_headers = details_headers req,
              opt_data = None, opt_params = [(''userId'', uid)]\<rparr>\<rparr>"

definition fire :: "'a circuit \<Rightarrow> call \<Rightarrow> 'a envelope settled" where
  "fire circuit c = circuit (url c) (opts c)"

text \<open>
  The handler of \<^verbatim>\<open>GET /v1/users/:userId/details\<close>, after \<^verbatim>\<open>verifyToken\<close>. Both
  circuits are fired before either result is looked at (\<^verbatim>\<open>Promise.allSettled\<close>). A
  \<^verbatim>\<open>TypeError\<close> (no \<^verbatim>\<open>req.user\<close>, or a successful orders envelope without
  \<^verbatim>\<open>data\<close>) lands in the \<^verbatim>\<open>catch\<close> block.
\<close>

definition user_details ::
  "'u circuit \<Rightarrow> orders_data circuit \<Rightarrow> request \<Rightarrow> string \<Rightarrow> ('u details) handled" where
  "user_details usersCircuit ordersCircuit req uid =
     (case user req of
        None \<Rightarrow> \<lparr>response = internal_error, fired = []\<rparr>
      | Some caller \<Rightarrow>
          if ident_id caller \<noteq> uid \<and> \<not> includes_admin (roles caller)
          then \<lparr>response = failure 403 ''FORBIDDEN'' ''Access denied'', fired = []\<rparr>
          else
            (let userResult = fire usersCircuit (userCall req uid);
                 ordersResult = fire ordersCircuit (ordersCall req uid);
                 calls = [userCall req uid, ordersCall req uid]
             in case userResult of
                  Rejected \<Rightarrow>
                    \<lparr>response = failure 404 ''USER_NOT_FOUND'' ''User not found'', fired = calls\<rparr>
                | Fulfilled userValue \<Rightarrow>
                    if \<not> success userValue
                    then \<lparr>response = failure 404 ''USER_NOT_FOUND'' ''User not found'', fired = calls\<rparr>
                    else
                      (let userData = data userValue;
                           ordersData =
                             (case ordersResult of
                                Rejected \<Rightarrow> Some empty_orders
                              | Fulfilled ordersValue \<Rightarrow>
                                  if success ordersValue then data ordersValue else Some empty_orders)
                       in case ordersData of
                            None \<Rightarrow> \<lparr>response = internal_error, fired = calls\<rparr>
                          | Some od \<Rightarrow> \<lparr>response = ok 200 (details_body userData od), fired = calls\<rparr>)))"

text \<open>
  The route as registered, for a request that the general limiter let pass:
  \<^verbatim>\<open>verifyToken\<close>, then the handler.
\<close>

definition get_user_details ::
  "(string \<Rightarrow> identity option) \<Rightarrow> 'u circuit \<Rightarrow> orders_data circuit \<Rightarrow> request \<Rightarrow> string
     \<Rightarrow> ('u details) handled" where
  "get_user_details verify usersCircuit ordersCircuit req uid =
     (case verifyToken verify req of
        Inl denied \<Rightarrow> \<lparr>response = denied, fired = []\<rparr>
      | Inr req' \<Rightarrow> user_details usersCircuit ordersCircuit req' uid)"

section \<open>Gateway: the circuits\<close>

text \<open>The options both circuits are created with.\<close>

record circuit_options =
  timeout :: nat
  errorThresholdPercentage :: nat
  resetTimeout :: nat
  rollingCountTimeout :: nat
  rollingCountBuckets :: nat

definition circuitOptions :: circuit_options where
  "circuitOptions =
     \<lparr>timeout = 5000, errorThresholdPercentage = 50, resetTimeout = 30000,
      rollingCountTimeout = 10000, rollingCountBuckets = 10\<rparr>"

text \<open>
  What comes back from a backend for one HTTP call: a reply with a status and a parsed body,
  no reply at all (connection refused or reset), or nothing within the 5 seconds that both
  the call and the circuit allow.
\<close>

datatype 'a reply = HttpReply nat 'a | NoReply | TimedOut

record 'a axios_response =
  resp_status :: nat
  resp_data :: 'a

text \<open>
  The HTTP client. The actions pass \<^verbatim>\<open>url\<close>, the caller's options and
  \<^verbatim>\<open>timeout\<close>, and no \<^verbatim>\<open>validateStatus\<close>, so the client's documented default
  decides which replies resolve the promise: those with a 2xx status. Every other reply
  rejects it, as a missing or late reply does.
\<close>

definition validateStatus :: "nat \<Rightarrow> bool" where
  "validateStatus st = (200 \<le> st \<and> st < 300)"

definition axios :: "'a reply \<Rightarrow> 'a axios_response settled" where
  "axios r =
     (case r of
        HttpReply st d \<Rightarrow>
          if validateStatus st then Fulfilled \<lparr>resp_status = st, resp_data = d\<rparr> else Rejected
      | NoReply \<Rightarrow> Rejected
      | TimedOut \<Rightarrow> Rejected)"

text \<open>
  The action wrapped by either circuit (they differ in the base URL only):
  \<^verbatim>\<open>const response = await axios({...}); return response.data;\<close>
\<close>

definition circuit_action :: "'a reply \<Rightarrow> 'a settled" where
  "circuit_action r =
     (case axios r of
        Fulfilled resp \<Rightarrow> Fulfilled (resp_data resp)
      | Rejected \<Rightarrow> Rejected)"

text \<open>
  Modelled from the spec: the breaker itself is the library object
  \<^verbatim>\<open>new CircuitBreaker(action, circuitOptions)\<close>, whose code is not among the sources.
  Section 4.1: the rolling window restarts after \<open>rollingCountTimeout\<close>; a completed call is
  a success, a rejected or timed-out one a failure that yields the fallback; the breaker
  opens when the error rate of the window exceeds \<open>errorThresholdPercentage\<close>, lets one
  trial through after \<open>resetTimeout\<close>, closes on its success and reopens on its failure.
  The options set no minimum number of calls, so none is modelled.
\<close>

datatype breaker_state = Closed | Open | HalfOpen

record breaker =
  state :: breaker_state
  successCount :: nat
  failureCount :: nat
  windowStart :: nat
  lastOpenedAt :: "nat option"

definition initial_breaker :: breaker where
  "initial_breaker =
     \<lparr>state = Closed, successCount = 0, failureCount = 0, windowStart = 0, lastOpenedAt = None\<rparr>"

definition roll :: "circuit_options \<Rightarrow> nat \<Rightarrow> breaker \<Rightarrow> breaker" where
  "roll cfg now b =
     (if windowStart b + rollingCountTimeout cfg \<le> now
      then b\<lparr>successCount := 0, failureCount := 0, windowStart := now\<rparr>
      else b)"

definition cooled_down :: "circuit_options \<Rightarrow> nat \<Rightarrow> breaker \<Rightarrow> bool" where
  "cooled_down cfg now b =
     (case lastOpenedAt b of None \<Rightarrow> True | Some t \<Rightarrow> t + resetTimeout cfg \<le> now)"

definition threshold_exceeded :: "circuit_options \<Rightarrow> breaker \<Rightarrow> bool" where
  "threshold_exceeded cfg b =
     (errorThresholdPercentage cfg * (successCount b + failureCount b) < 100 * failureCount b)"

definition record_success :: "breaker \<Rightarrow> breaker" where
  "record_success b =
     b\<lparr>successCount := successCount b + 1,
       state := (if state b = HalfOpen then Closed else state b)\<rparr>"

definition record_failure :: "circuit_options \<Rightarrow> nat \<Rightarrow> breaker \<Rightarrow> breaker" where
  "record_failure cfg now b =
     (let counted = b\<lparr>failureCount := failureCount b + 1\<rparr>
      in if state b = HalfOpen \<or> threshold_exceeded cfg counted
         then counted\<lparr>state := Open, lastOpenedAt := Some now\<rparr>
         else counted)"

record 'a invoked =
  breaker_after :: breaker
  yielded :: 'a
  attempted :: bool

text \<open>
  \<open>invoke\<close> is \<^verbatim>\<open>circuit.fire\<close> at time \<open>now\<close>; \<open>outcome\<close> is what the action would
  settle to if it is run. The promise of \<^verbatim>\<open>fire\<close> always fulfils: with the action's
  value or with the fallback.
\<close>

definition invoke ::
  "circuit_options \<Rightarrow> 'a \<Rightarrow> nat \<Rightarrow> breaker \<Rightarrow> 'a settled \<Rightarrow> 'a invoked" where
  "invoke cfg fallback now b outcome =
     (let rolled = roll cfg now b;
          ready = (if state rolled = Open \<and> cooled_down cfg now rolled
                   then rolled\<lparr>state := HalfOpen\<rparr> else rolled)
      in if state ready = Open
         then \<lparr>breaker_after = ready, yielded = fallback, attempted = False\<rparr>
         else (case outcome of
                 Fulfilled v \<Rightarrow>
                   \<lparr>breaker_after = record_success ready, yielded = v, attempted = True\<rparr>
               | Rejected \<Rightarrow>
                   \<lparr>breaker_after = record_failure cfg now ready, yielded = fallback,
                    attempted = True\<rparr>))"

text \<open>
  The users circuit answering one backend reply, and the circuit as its callers see it at
  time \<open>now\<close> in breaker state \<open>b\<close>, in front of a backend that answers a call with a reply.
\<close>

definition usersCircuit_fire :: "nat \<Rightarrow> breaker \<Rightarrow> 'a envelope reply \<Rightarrow> 'a envelope invoked" where
  "usersCircuit_fire now b r = invoke circuitOptions usersCircuit_fallback now b (circuit_action r)"

definition usersCircuit_at ::
  "nat \<Rightarrow> breaker \<Rightarrow> (string \<Rightarrow> options \<Rightarrow> 'a envelope reply) \<Rightarrow> 'a circuit" where
  "usersCircuit_at now b backend u options =
     Fulfilled (yielded (usersCircuit_fire now b (backend u options)))"

text \<open>The HTTP reply that carries a backend's response.\<close>

definition reply_of :: "'a response \<Rightarrow> 'a envelope reply" where
  "reply_of r = HttpReply (status r) (body r)"

section \<open>Gateway: rate limiters\<close>

record limiter_config =
  windowMs :: nat
  limit_max :: nat
  limit_message :: error_body

definition limiter :: limiter_config where
  "limiter =
     \<lparr>windowMs = 15 * 60 * 1000, limit_max = 100,
      limit_message = \<lparr>code = ''RATE_LIMIT_EXCEEDED'',
                       message = ''Too many requests, please try again later.''\<rparr>\<rparr>"

definition authLimiter :: limiter_config where
  "authLimiter =
     \<lparr>windowMs = 15 * 60 * 1000, limit_max = 5,
      limit_message = \<lparr>code = ''RATE_LIMIT_EXCEEDED'',
                       message = ''Too many authentication attempts, please try again later.''\<rparr>\<rparr>"

text \<open>
  Modelled from the spec: the counting itself is the library function \<^verbatim>\<open>rateLimit\<close>, whose
  code is not among the sources; the repository only configures it. Section 4.4: a window
  counter keyed by client address; a request that would exceed the maximum within the
  window is denied without being counted; the count starts again once the window is over.
\<close>

record hits =
  hit_count :: nat
  window_from :: nat

type_synonym store = "string \<Rightarrow> hits option"

definition current_hits :: "limiter_config \<Rightarrow> nat \<Rightarrow> hits option \<Rightarrow> hits" where
  "current_hits cfg now h =
     (case h of
        None \<Rightarrow> \<lparr>hit_count = 0, window_from = now\<rparr>
      | Some w \<Rightarrow>
          if window_from w + windowMs cfg \<le> now then \<lparr>hit_count = 0, window_from = now\<rparr> else w)"

definition check :: "limiter_config \<Rightarrow> nat \<Rightarrow> string \<Rightarrow> store \<Rightarrow> bool \<times> store" where
  "check cfg now clientKey st =
     (let cur = current_hits cfg now (st clientKey)
      in if limit_max cfg \<le> hit_count cur
         then (False, st(clientKey \<mapsto> cur))
         else (True, st(clientKey \<mapsto> cur\<lparr>hit_count := hit_count cur + 1\<rparr>)))"

definition too_many :: "limiter_config \<Rightarrow> 'a response" where
  "too_many cfg =
     \<lparr>status = 429, body = \<lparr>success = False, data = None, error = Some (limit_message cfg)\<rparr>\<rparr>"

record limiters =
  general :: store
  strict :: store

definition no_hits :: limiters where
  "no_hits = \<lparr>general = Map.empty, strict = Map.empty\<rparr>"

text \<open>
  A route behind both limiters, as \<^verbatim>\<open>POST /v1/users/register\<close> and
  \<^verbatim>\<open>POST /v1/users/login\<close> are: \<^verbatim>\<open>app.use('/v1/', limiter)\<close> runs first, then the
  route's own \<^verbatim>\<open>authLimiter\<close>, then the forwarder.
\<close>

definition strict_route ::
  "string \<Rightarrow> limiters \<Rightarrow> nat \<Rightarrow> string \<Rightarrow> 'a circuit \<Rightarrow> request \<Rightarrow> limiters \<times> 'a handled" where
  "strict_route u ls now clientKey circuit req =
     (case check limiter now clientKey (general ls) of
        (False, g) \<Rightarrow> (ls\<lparr>general := g\<rparr>, \<lparr>response = too_many limiter, fired = []\<rparr>)
      | (True, g) \<Rightarrow>
          (case check authLimiter now clientKey (strict ls) of
             (False, a) \<Rightarrow>
               (ls\<lparr>general := g, strict := a\<rparr>, \<lparr>response = too_many authLimiter, fired = []\<rparr>)
           | (True, a) \<Rightarrow>
               (ls\<lparr>general := g, strict := a\<rparr>, forwardRequest Users circuit u req)))"

definition post_users_register ::
  "limiters \<Rightarrow> nat \<Rightarrow> string \<Rightarrow> 'a circuit \<Rightarrow> request \<Rightarrow> limiters \<times> 'a handled" where
  "post_users_register = strict_route ''/v1/users/register''"

definition post_users_login ::
  "limiters \<Rightarrow> nat \<Rightarrow> string \<Rightarrow> 'a circuit \<Rightarrow> request \<Rightarrow> limiters \<times> 'a handled" where
  "post_users_login = strict_route ''/v1/users/login''"

text \<open>Serving registration requests of one client at the given times, one after the other.\<close>

fun register_at ::
  "limiters \<Rightarrow> nat list \<Rightarrow> string \<Rightarrow> 'a circuit \<Rightarrow> request \<Rightarrow> limiters \<times> nat list" where
  "register_at ls [] clientKey circuit req = (ls, [])"
| "register_at ls (t # ts) clientKey circuit req =
     (case post_users_register ls t clientKey circuit req of
        (ls', h) \<Rightarrow>
          (case register_at ls' ts clientKey circuit req of
             (ls'', sts) \<Rightarrow> (ls'', status (response h) # sts)))"

section \<open>Backends: credential check\<close>

text \<open>
  \<^verbatim>\<open>authMiddleware\<close> (middleware/auth.js of a backend). It either answers 401 itself or
  hands the decoded identity on. \<open>verify\<close> stands for \<^verbatim>\<open>jwt.verify(token, JWT_SECRET)\<close>.
\<close>

definition authMiddleware :: "(string \<Rightarrow> identity option) \<Rightarrow> string option \<Rightarrow> 'a response + identity" where
  "authMiddleware verify authHeader =
     (case authHeader of
        None \<Rightarrow> Inl (failure 401 ''UNAUTHORIZED'' ''No token provided'')
      | Some h \<Rightarrow>
          if h = [] \<or> \<not> startsWith h ''Bearer ''
          then Inl (failure 401 ''UNAUTHORIZED'' ''No token provided'')
          else (case verify (drop 7 h) of
                  None \<Rightarrow> Inl (failure 401 ''INVALID_TOKEN'' ''Invalid or expired token'')
                | Some decoded \<Rightarrow> Inr decoded))"






section \<open>Users service\<close>

text \<open>
  A stored user is a plain object; its own enumerable properties are kept in insertion
  order. The store \<^verbatim>\<open>usersDb\<close> is a plain object keyed by user id.
\<close>

datatype jv = Str string | Strs "string list"

type_synonym obj = "(string \<times> jv) list"

type_synonym users_db = "(string \<times> obj) list"

definition findUserByEmail :: "users_db \<Rightarrow> string \<Rightarrow> obj option" where
  "findUserByEmail db e = find (\<lambda>u. map_of u ''email'' = Some (Str e)) (map snd db)"

text \<open>
  \<^verbatim>\<open>usersDb[id]\<close>. For an id that names an inherited property the lookup yields a built-in
  function or object: truthy, and without own enumerable properties.
\<close>

definition findUserById :: "users_db \<Rightarrow> string \<Rightarrow> obj option" where
  "findUserById db i =
     (case js_get db i of
        Own u \<Rightarrow> Some u
      | Inherited \<Rightarrow> Some []
      | Undefined \<Rightarrow> None)"

text \<open>\<^verbatim>\<open>const { passwordHash, ...userWithoutPassword } = user\<close>\<close>

definition sanitizeUser :: "obj \<Rightarrow> obj" where
  "sanitizeUser u = filter (\<lambda>p. fst p \<noteq> ''passwordHash'') u"

text \<open>Object spread: the later object's properties are defined on the earlier one.\<close>

definition spread :: "obj \<Rightarrow> obj \<Rightarrow> obj" where
  "spread u v = foldl (\<lambda>acc p. js_put acc (fst p) (snd p)) u v"

text \<open>A property value used as a property key.\<close>

fun join_commas :: "string list \<Rightarrow> string" where
  "join_commas [] = []"
| "join_commas [x] = x"
| "join_commas (x # y # ys) = x @ '','' @ join_commas (y # ys)"

definition as_key :: "jv option \<Rightarrow> string" where
  "as_key v = (case v of None \<Rightarrow> ''undefined'' | Some (Str x) \<Rightarrow> x | Some (Strs xs) \<Rightarrow> join_commas xs)"

text \<open>\<^verbatim>\<open>user.roles.includes(role)\<close>: \<open>None\<close> when there is no \<^verbatim>\<open>roles\<close> to call it on.\<close>

fun includes_str :: "string \<Rightarrow> string \<Rightarrow> bool" where
  "includes_str [] p = (p = [])"
| "includes_str (c # cs) p = (startsWith (c # cs) p \<or> includes_str cs p)"

definition roles_include :: "obj \<Rightarrow> string \<Rightarrow> bool option" where
  "roles_include u r =
     (case map_of u ''roles'' of
        None \<Rightarrow> None
      | Some (Strs rs) \<Rightarrow> Some (r \<in> set rs)
      | Some (Str x) \<Rightarrow> Some (includes_str x r))"

text \<open>\<^verbatim>\<open>users.filter(user => user.roles.includes(role))\<close>: \<open>None\<close> when a call throws.\<close>

fun filter_role :: "obj list \<Rightarrow> string \<Rightarrow> obj list option" where
  "filter_role [] r = Some []"
| "filter_role (u # us) r =
     (case roles_include u r of
        None \<Rightarrow> None
      | Some keep \<Rightarrow>
          (case filter_role us r of
             None \<Rightarrow> None
           | Some rest \<Rightarrow> Some (if keep then u # rest else rest)))"

text \<open>\<^verbatim>\<open>Array.prototype.slice(start, end)\<close> on integers.\<close>

definition js_slice :: "'a list \<Rightarrow> int \<Rightarrow> int \<Rightarrow> 'a list" where
  "js_slice xs start stop =
     (let n = int (length xs);
          k = (if start < 0 then max (n + start) 0 else min start n);
          e = (if stop < 0 then max (n + stop) 0 else min stop n)
      in take (nat (e - k)) (drop (nat k) xs))"

record users_pagination =
  page :: int
  limit :: int
  users_total :: nat
  totalPages :: int

datatype payload =
    Health
  | Registered obj
  | LoggedIn string obj
  | Profile obj
  | UserList "obj list" users_pagination

text \<open>The user objects that a response payload carries.\<close>

fun payload_users :: "payload \<Rightarrow> obj list" where
  "payload_users Health = []"
| "payload_users (Registered u) = [u]"
| "payload_users (LoggedIn t u) = [u]"
| "payload_users (Profile u) = [u]"
| "payload_users (UserList us p) = us"

text \<open>
  What a handler takes from outside the repository: the libraries for tokens, password
  hashes and schema validation (a validation yields the first error message or the
  validated value; the value of a profile update is given as its properties in order, a
  later one overriding an earlier one of the same name), the fresh id and the clock. The
  fresh id is a UUID, so it is neither an inherited name nor an array index, and the store
  keeps its users in insertion order. \<^verbatim>\<open>requireRole\<close> is imported from
  \<^verbatim>\<open>./middleware/auth\<close> but is not among the sources: it is a parameter that lets the
  request pass (\<open>None\<close>) or answers with a status and an error.
\<close>

record register_value =
  reg_email :: string
  reg_password :: string
  reg_name :: string
  reg_roles :: "string list option"

record login_value =
  login_email :: string
  login_password :: string

record externals =
  jwt_verify :: "string \<Rightarrow> identity option"
  jwt_sign :: "obj \<Rightarrow> string"
  bcrypt_hash :: "string \<Rightarrow> string"
  bcrypt_compare :: "string \<Rightarrow> string \<Rightarrow> bool"
  validate_register :: "string \<Rightarrow> string + register_value"
  validate_login :: "string \<Rightarrow> string + login_value"
  validate_update :: "string \<Rightarrow> string + (string \<times> string) list"
  requireRole :: "string list \<Rightarrow> identity \<Rightarrow> (nat \<times> error_body) option"
  uuidv4 :: string
  now_iso :: string

record backend_request =
  auth_header :: "string option"
  body_text :: string
  query_page :: "int option"
  query_limit :: "int option"
  query_role :: "string option"

type_synonym users_result = "users_db \<times> payload response"

definition post_register :: "externals \<Rightarrow> users_db \<Rightarrow> backend_request \<Rightarrow> users_result" where
  "post_register ext db req =
     (case validate_register ext (body_text req) of
        Inl msg \<Rightarrow> (db, failure 400 ''VALIDATION_ERROR'' msg)
      | Inr v \<Rightarrow>
          (case findUserByEmail db (reg_email v) of
             Some existingUser \<Rightarrow>
               (db, failure 409 ''USER_EXISTS'' ''User with this email already exists'')
           | None \<Rightarrow>
               (let userRoles = (case reg_roles v of None \<Rightarrow> [''user''] | Some rs \<Rightarrow> rs);
                    newUser =
                      [(''id'', Str (uuidv4 ext)), (''email'', Str (reg_email v)),
                       (''passwordHash'', Str (bcrypt_hash ext (reg_password v))),
                       (''name'', Str (reg_name v)), (''roles'', Strs userRoles),
                       (''createdAt'', Str (now_iso ext)), (''updatedAt'', Str (now_iso ext))]
                in (js_set db (uuidv4 ext) newUser,
                    ok 201 (Registered
                      [(''id'', Str (uuidv4 ext)), (''email'', Str (reg_email v)),
                       (''name'', Str (reg_name v)), (''roles'', Strs userRoles),
                       (''createdAt'', Str (now_iso ext))])))))"

definition post_login :: "externals \<Rightarrow> users_db \<Rightarrow> backend_request \<Rightarrow> users_result" where
  "post_login ext db req =
     (case validate_login ext (body_text req) of
        Inl msg \<Rightarrow> (db, failure 400 ''VALIDATION_ERROR'' msg)
      | Inr v \<Rightarrow>
          (case findUserByEmail db (login_email v) of
             None \<Rightarrow> (db, failure 401 ''INVALID_CREDENTIALS'' ''Invalid email or password'')
           | Some u \<Rightarrow>
               (case map_of u ''passwordHash'' of
                  Some (Str h) \<Rightarrow>
                    if bcrypt_compare ext (login_password v) h
                    then (db, ok 200 (LoggedIn (jwt_sign ext u) (sanitizeUser u)))
                    else (db, failure 401 ''INVALID_CREDENTIALS'' ''Invalid email or password'')
                | _ \<Rightarrow> (db, internal_error))))"

definition get_profile :: "users_db \<Rightarrow> identity \<Rightarrow> users_result" where
  "get_profile db caller =
     (case findUserById db (ident_id caller) of
        None \<Rightarrow> (db, failure 404 ''USER_NOT_FOUND'' ''User not found'')
      | Some u \<Rightarrow> (db, ok 200 (Profile (sanitizeUser u))))"

definition put_profile :: "externals \<Rightarrow> users_db \<Rightarrow> identity \<Rightarrow> backend_request \<Rightarrow> users_result" where
  "put_profile ext db caller req =
     (case validate_update ext (body_text req) of
        Inl msg \<Rightarrow> (db, failure 400 ''VALIDATION_ERROR'' msg)
      | Inr v \<Rightarrow>
          (case findUserById db (ident_id caller) of
             None \<Rightarrow> (db, failure 404 ''USER_NOT_FOUND'' ''User not found'')
           | Some u \<Rightarrow>
               if (case map_of (rev v) ''email'' of
                     None \<Rightarrow> False
                   | Some e \<Rightarrow> e \<noteq> [] \<and> map_of u ''email'' \<noteq> Some (Str e)
                               \<and> findUserByEmail db e \<noteq> None)
               then (db, failure 409 ''EMAIL_EXISTS'' ''Email already in use'')
               else
                 (let updatedUser =
                        js_put (spread u (map (\<lambda>p. (fst p, Str (snd p))) v))
                          ''updatedAt'' (Str (now_iso ext))
                  in (js_set db (as_key (map_of u ''id'')) updatedUser,
                      ok 200 (Profile (sanitizeUser updatedUser))))))"

definition get_users :: "users_db \<Rightarrow> backend_request \<Rightarrow> users_result" where
  "get_users db req =
     (let pg = (case query_page req of None \<Rightarrow> 1 | Some n \<Rightarrow> if n = 0 then 1 else n);
          lim = (case query_limit req of None \<Rightarrow> 10 | Some n \<Rightarrow> if n = 0 then 10 else n);
          filtered =
            (case query_role req of
               None \<Rightarrow> Some (map snd db)
             | Some r \<Rightarrow> if r = [] then Some (map snd db) else filter_role (map snd db) r)
      in case filtered of
           None \<Rightarrow> (db, internal_error)
         | Some us \<Rightarrow>
             (db, ok 200 (UserList
                (map sanitizeUser (js_slice us ((pg - 1) * lim) (pg * lim)))
                \<lparr>page = pg, limit = lim, users_total = length us,
                 totalPages = - ((- int (length us)) div lim)\<rparr>)))"

definition get_user_by_id :: "users_db \<Rightarrow> string \<Rightarrow> users_result" where
  "get_user_by_id db i =
     (case findUserById db i of
        None \<Rightarrow> (db, failure 404 ''USER_NOT_FOUND'' ''User not found'')
      | Some u \<Rightarrow> (db, ok 200 (Profile (sanitizeUser u))))"

text \<open>The routes of the users service and the middleware registered in front of each.\<close>

datatype users_route =
    UsersHealth
  | PostRegister
  | PostLogin
  | GetProfile
  | PutProfile
  | GetUsers
  | GetUserById string

definition users_service :: "externals \<Rightarrow> users_db \<Rightarrow> users_route \<Rightarrow> backend_request \<Rightarrow> users_result" where
  "users_service ext db route req =
     (case route of
        UsersHealth \<Rightarrow> (db, ok 200 Health)
      | PostRegister \<Rightarrow> post_register ext db req
      | PostLogin \<Rightarrow> post_login ext db req
      | GetProfile \<Rightarrow>
          (case authMiddleware (jwt_verify ext) (auth_header req) of
             Inl denied \<Rightarrow> (db, denied)
           | Inr caller \<Rightarrow> get_profile db caller)
      | PutProfile \<Rightarrow>
          (case authMiddleware (jwt_verify ext) (auth_header req) of
             Inl denied \<Rightarrow> (db, denied)
           | Inr caller \<Rightarrow> put_profile ext db caller req)
      | GetUsers \<Rightarrow>
          (case authMiddleware (jwt_verify ext) (auth_header req) of
             Inl denied \<Rightarrow> (db, denied)
           | Inr caller \<Rightarrow>
               (case requireRole ext [''admin''] caller of
                  Some (st, e) \<Rightarrow>
                    (db, \<lparr>status = st, body = \<lparr>success = False, data = None, error = Some e\<rparr>\<rparr>)
                | None \<Rightarrow> get_users db req))
      | GetUserById i \<Rightarrow> get_user_by_id db i)"

text \<open>No user object carried by a response has a \<open>passwordHash\<close> property.\<close>

definition no_hash :: "payload response \<Rightarrow> bool" where
  "no_hash r =
     (case data (body r) of
        None \<Rightarrow> True
      | Some p \<Rightarrow> list_all (\<lambda>u. ''passwordHash'' \<notin> fst ` set u) (payload_users p))"

section \<open>Orders service\<close>





section \<open>Sample inputs\<close>

definition sample_request :: request where
  "sample_request =
     \<lparr>req_id = ''r-1'', req_method = ''POST'', authorization = Some ''Bearer tok'',
      req_body = ''{}'', req_query = [], user = None\<rparr>"

definition sample_caller :: identity where
  "sample_caller = \<lparr>ident_id = ''u1'', email = ''u1@example.com'', roles = Some [''user'']\<rparr>"

definition sample_verify :: "string \<Rightarrow> identity option" where
  "sample_verify t = (if t = ''tok'' then Some sample_caller else None)"

definition sample_authenticated :: request where
  "sample_authenticated = sample_request\<lparr>req_method := ''GET'', user := Some sample_caller\<rparr>"

definition business_failure :: "string \<Rightarrow> 'a envelope" where
  "business_failure c =
     \<lparr>success = False, data = None, error = Some \<lparr>code = c, message = ''rejected''\<rparr>\<rparr>"

definition sample_user_envelope :: "string envelope" where
  "sample_user_envelope = \<lparr>success = True, data = Some ''user u1'', error = None\<rparr>"


definition sample_stored_user :: obj where
  "sample_stored_user =
     [(''id'', Str ''u1''), (''email'', Str ''u1@example.com''),
      (''passwordHash'', Str ''$2a$10$abc''), (''name'', Str ''Una''),
      (''roles'', Strs [''user'']), (''createdAt'', Str ''2024-01-01T00:00:00.000Z''),
      (''updatedAt'', Str ''2024-01-01T00:00:00.000Z'')]"

definition sample_db :: users_db where
  "sample_db = [(''u1'', sample_stored_user)]"

definition sample_externals :: externals where
  "sample_externals =
     \<lparr>jwt_verify = sample_verify,
      jwt_sign = (\<lambda>u. ''tok''),
      bcrypt_hash = (\<lambda>p. ''$2a$10$abc''),
      bcrypt_compare = (\<lambda>p h. p = ''secret1'' \<and> h = ''$2a$10$abc''),
      validate_register = (\<lambda>b. Inl ''email is required''),
      validate_login =
        (\<lambda>b. Inr \<lparr>login_email = ''u1@example.com'', login_password = ''secret1''\<rparr>),
      validate_update = (\<lambda>b. Inr [(''name'', ''Una B'')]),
      requireRole =
        (\<lambda>rs caller. Some (403, \<lparr>code = ''FORBIDDEN'', message = ''Insufficient permissions''\<rparr>)),
      uuidv4 = ''u2'',
      now_iso = ''2024-02-02T00:00:00.000Z''\<rparr>"

definition anonymous :: backend_request where
  "anonymous =
     \<lparr>auth_header = None, body_text = ''{}'', query_page = None, query_limit = None,
      query_role = None\<rparr>"


text \<open>Constants of polymorphic type are unfolded before code is generated.\<close>

declare internal_error_def [code_unfold]
declare usersCircuit_fallback_def [code_unfold]
declare ordersCircuit_fallback_def [code_unfold]

section \<open>Properties of the forwarder\<close>

lemma status_rows_in_table: "set status_rows \<subseteq> set table_codes"
  by (simp add: status_rows_def table_codes_def)

lemma statusCode_unlisted:
  assumes "\<not> success result" and "\<forall>c \<in> set status_rows. error_code result \<noteq> Some c"
  shows "statusCode result = 500"
  using assms by (simp add: statusCode_def status_rows_def)

text \<open>
  C3. The status the forwarder answers with is a function of the envelope the circuit
  returned: 200 for every envelope with \<open>success = True\<close>, 400 for every failed envelope
  with code \<open>VALIDATION_ERROR\<close>, and 500 for every failed envelope whose code has no row
  in the table of the specification, or indeed none in the chain of the code (or that
  carries no code at all). The envelope itself is relayed unchanged.
\<close>

theorem forward_status_total:
  assumes "circuit u (forward_options req) = Fulfilled result"
  shows "body (response (forwardRequest b circuit u req)) = result
       \<and> status (response (forwardRequest b circuit u req)) = statusCode result
       \<and> (success result \<longrightarrow> statusCode result = 200)
       \<and> (\<not> success result \<and> error_code result = Some ''VALIDATION_ERROR''
            \<longrightarrow> statusCode result = 400)
       \<and> (\<not> success result \<and> (\<forall>c \<in> set table_codes. error_code result \<noteq> Some c)
            \<longrightarrow> statusCode result = 500)
       \<and> (\<not> success result \<and> (\<forall>c \<in> set status_rows. error_code result \<noteq> Some c)
            \<longrightarrow> statusCode result = 500)"
proof -
  have "\<not> success result \<and> (\<forall>c \<in> set table_codes. error_code result \<noteq> Some c)
          \<longrightarrow> statusCode result = 500"
    using statusCode_unlisted [of result] status_rows_in_table by blast
  moreover have "\<not> success result \<and> (\<forall>c \<in> set status_rows. error_code result \<noteq> Some c)
          \<longrightarrow> statusCode result = 500"
    using statusCode_unlisted [of result] by blast
  moreover have "body (response (forwardRequest b circuit u req)) = result
       \<and> status (response (forwardRequest b circuit u req)) = statusCode result"
    using assms by (simp add: forwardRequest_def)
  moreover have "(success result \<longrightarrow> statusCode result = 200)
       \<and> (\<not> success result \<and> error_code result = Some ''VALIDATION_ERROR''
            \<longrightarrow> statusCode result = 400)"
    by (simp add: statusCode_def)
  ultimately show ?thesis by blast
qed

theorem forward_status_total_witness:
  "status (response (forwardRequest Users
      (\<lambda>u opts. Fulfilled (business_failure ''VALIDATION_ERROR'' :: unit envelope))
      ''/v1/users/register'' sample_request)) = 400
   \<and> status (response (forwardRequest Users
      (\<lambda>u opts. Fulfilled sample_user_envelope) ''/v1/users/u1'' sample_request)) = 200
   \<and> status (response (forwardRequest Users
      (\<lambda>u opts. Fulfilled (business_failure ''INVALID_CREDENTIALS'' :: unit envelope))
      ''/v1/users/login'' sample_request)) = 500"
  using
    forward_status_total [of "\<lambda>u opts. Fulfilled (business_failure ''VALIDATION_ERROR'' :: unit envelope)"
      "''/v1/users/register''" sample_request _ Users]
    forward_status_total [of "\<lambda>u opts. Fulfilled sample_user_envelope"
      "''/v1/users/u1''" sample_request _ Users]
    forward_status_total [of "\<lambda>u opts. Fulfilled (business_failure ''INVALID_CREDENTIALS'' :: unit envelope)"
      "''/v1/users/login''" sample_request _ Users]
  by (simp add: business_failure_def sample_user_envelope_def error_code_def table_codes_def
                status_rows_def)

text \<open>
  C2, evaluated on the code. The fallback envelope of either circuit carries the code
  \<open>SERVICE_UNAVAILABLE\<close>, which the ternary chain of \<^verbatim>\<open>forwardRequest\<close> does not list:
  with the users backend down, the forwarder answers 500. Status 503 is sent only by the
  \<^verbatim>\<open>catch\<close> block, that is when the promise of \<^verbatim>\<open>fire\<close> rejects.
\<close>

theorem fallback_status:
  "statusCode (usersCircuit_fallback :: unit envelope) = 500
   \<and> statusCode (ordersCircuit_fallback :: unit envelope) = 500
   \<and> response (forwardRequest Users
        (usersCircuit_at 0 initial_breaker (\<lambda>u opts. (NoReply :: unit envelope reply)))
        ''/v1/users/profile'' sample_request)
       = \<lparr>status = 500, body = usersCircuit_fallback\<rparr>
   \<and> status (response (forwardRequest Users
        (\<lambda>u opts. (Rejected :: unit envelope settled))
        ''/v1/users/profile'' sample_request)) = 503"
  by (simp add: statusCode_def error_code_def usersCircuit_fallback_def
      ordersCircuit_fallback_def forwardRequest_def failure_def usersCircuit_at_def
      usersCircuit_fire_def invoke_def circuit_action_def axios_def roll_def
      record_failure_def threshold_exceeded_def initial_breaker_def circuitOptions_def Let_def)

text \<open>
  The forwarder fires its circuit exactly once, with the options built from the inbound
  request: the body goes along for every method but \<open>GET\<close> and \<open>HEAD\<close>, the query
  always, and the bearer credential is passed through as it came.
\<close>

theorem forward_fires_once:
  "fired (forwardRequest b circuit u req) = [\<lparr>target = b, url = u, opts = forward_options req\<rparr>]
   \<and> opt_method (forward_options req) = req_method req
   \<and> opt_params (forward_options req) = req_query req
   \<and> opt_data (forward_options req) =
        (if req_method req = ''GET'' \<or> req_method req = ''HEAD'' then None
         else Some (req_body req))
   \<and> x_request_id (opt_headers (forward_options req)) = req_id req"
  by (cases "circuit u (forward_options req)")
     (simp_all add: forwardRequest_def forward_options_def)

text \<open>
  A protected route answers a request without a token with 401 and code \<open>UNAUTHORIZED\<close>,
  and one whose token does not verify with 401 and code \<open>INVALID_TOKEN\<close>; neither fires
  the circuit.
\<close>

theorem protected_route_rejects:
  "get_users_profile verify circuit (req\<lparr>authorization := None\<rparr>)
     = \<lparr>response = failure 401 ''UNAUTHORIZED'' ''No token provided'', fired = []\<rparr>
   \<and> get_users_profile (\<lambda>token. None) circuit (req\<lparr>authorization := Some (''Bearer '' @ t)\<rparr>)
     = \<lparr>response = failure 401 ''INVALID_TOKEN'' ''Invalid or expired token'', fired = []\<rparr>"
  by (simp add: get_users_profile_def protected_route_def verifyToken_def startsWith_def)

section \<open>Properties of the aggregator\<close>

text \<open>
  C4. A caller whose token verifies, whose id differs from the requested user id and whose
  roles do not include \<open>admin\<close> gets 403 with code \<open>FORBIDDEN\<close>, and the handler fires
  neither circuit.
\<close>

theorem details_forbidden:
  assumes "authorization req = Some (''Bearer '' @ token)"
      and "verify token = Some caller"
      and "ident_id caller \<noteq> uid"
      and "\<forall>rs. roles caller = Some rs \<longrightarrow> ''admin'' \<notin> set rs"
  shows "status (response (get_user_details verify usersCircuit ordersCircuit req uid)) = 403
       \<and> error_code (body (response (get_user_details verify usersCircuit ordersCircuit req uid)))
           = Some ''FORBIDDEN''
       \<and> \<not> success (body (response (get_user_details verify usersCircuit ordersCircuit req uid)))
       \<and> fired (get_user_details verify usersCircuit ordersCircuit req uid) = []"
proof -
  have "\<not> includes_admin (roles caller)"
    using assms(4) by (cases "roles caller") (simp_all add: includes_admin_def)
  then show ?thesis
    using assms(1,2,3)
    by (simp add: get_user_details_def verifyToken_def startsWith_def user_details_def
                  failure_def error_code_def)
qed

theorem details_forbidden_witness:
  "status (response (get_user_details sample_verify
       (\<lambda>u opts. Fulfilled sample_user_envelope) (\<lambda>u opts. Rejected) sample_request ''u2'')) = 403
   \<and> fired (get_user_details sample_verify
       (\<lambda>u opts. Fulfilled sample_user_envelope) (\<lambda>u opts. Rejected) sample_request ''u2'') = []"
  using details_forbidden [of sample_request "''tok''" sample_verify sample_caller "''u2''"
      "\<lambda>u opts. Fulfilled sample_user_envelope" "\<lambda>u opts. Rejected"]
  by (simp add: sample_request_def sample_verify_def sample_caller_def)

text \<open>
  C5. Once the caller is authorised, a user lookup that is rejected or that returns an
  envelope with \<open>success = False\<close> makes the handler answer 404 with code
  \<open>USER_NOT_FOUND\<close>; whatever the orders circuit does, the outcome is the same.
\<close>

theorem details_user_lookup_failed:
  assumes "user req = Some caller"
      and "ident_id caller = uid \<or> (\<exists>rs. roles caller = Some rs \<and> ''admin'' \<in> set rs)"
      and "fire usersCircuit (userCall req uid) = Rejected
           \<or> (\<exists>e. fire usersCircuit (userCall req uid) = Fulfilled e \<and> \<not> success e)"
  shows "response (user_details usersCircuit ordersCircuit req uid)
           = failure 404 ''USER_NOT_FOUND'' ''User not found''
       \<and> user_details usersCircuit ordersCircuit' req uid
           = user_details usersCircuit ordersCircuit req uid"
  using assms
  by (auto simp: user_details_def includes_admin_def)

theorem details_user_lookup_failed_witness:
  "response (user_details (\<lambda>u opts. Fulfilled (business_failure ''USER_NOT_FOUND'' :: string envelope))
       (\<lambda>u opts. Fulfilled \<lparr>success = True, data = Some empty_orders, error = None\<rparr>)
       sample_authenticated ''u1'')
     = failure 404 ''USER_NOT_FOUND'' ''User not found''"
  using details_user_lookup_failed [of sample_authenticated sample_caller "''u1''"
      "\<lambda>u opts. Fulfilled (business_failure ''USER_NOT_FOUND'' :: string envelope)"
      "\<lambda>u opts. Fulfilled \<lparr>success = True, data = Some empty_orders, error = None\<rparr>"]
  by (simp add: sample_authenticated_def sample_caller_def fire_def business_failure_def)

text \<open>
  C6. Once the caller is authorised and the user lookup returned an envelope with
  \<open>success = True\<close>, an orders lookup that is rejected or that returns \<open>success = False\<close>
  degrades the answer instead of failing it: status 200, the user data of the user envelope,
  no orders, a total of 0 and an empty histogram.
\<close>

theorem details_orders_lookup_failed:
  assumes "user req = Some caller"
      and "ident_id caller = uid \<or> (\<exists>rs. roles caller = Some rs \<and> ''admin'' \<in> set rs)"
      and "fire usersCircuit (userCall req uid) = Fulfilled userValue"
      and "success userValue"
      and "fire ordersCircuit (ordersCall req uid) = Rejected
           \<or> (\<exists>e. fire ordersCircuit (ordersCall req uid) = Fulfilled e \<and> \<not> success e)"
  shows "response (user_details usersCircuit ordersCircuit req uid)
           = \<lparr>status = 200,
              body = \<lparr>success = True,
                      data = Some \<lparr>details_user = data userValue, details_orders = [],
                                   ordersSummary = \<lparr>summary_total = 0, byStatus = []\<rparr>\<rparr>,
                      error = None\<rparr>\<rparr>"
  using assms
  by (auto simp: user_details_def includes_admin_def ok_def details_body_def
                 empty_orders_def histogram_def)

theorem details_orders_lookup_failed_witness:
  "response (user_details (\<lambda>u opts. Fulfilled sample_user_envelope)
       (\<lambda>u opts. Fulfilled ordersCircuit_fallback) sample_authenticated ''u1'')
     = \<lparr>status = 200,
        body = \<lparr>success = True,
                data = Some \<lparr>details_user = Some ''user u1'', details_orders = [],
                             ordersSummary = \<lparr>summary_total = 0, byStatus = []\<rparr>\<rparr>,
                error = None\<rparr>\<rparr>"
  using details_orders_lookup_failed [of sample_authenticated sample_caller "''u1''"
      "\<lambda>u opts. Fulfilled sample_user_envelope" sample_user_envelope
      "\<lambda>u opts. Fulfilled ordersCircuit_fallback"]
  by (simp add: sample_authenticated_def sample_caller_def fire_def sample_user_envelope_def
                ordersCircuit_fallback_def)

text \<open>
  The aggregator never fires one circuit alone: it fires none (no identity, or a caller who
  may not see the user) or both, the user lookup first, whatever either lookup settles to.
\<close>

theorem details_fires_none_or_both:
  "fired (user_details usersCircuit ordersCircuit req uid) = []
   \<or> fired (user_details usersCircuit ordersCircuit req uid)
       = [userCall req uid, ordersCall req uid]"
  by (simp add: user_details_def Let_def split: option.splits settled.splits)

section \<open>Properties of the histogram\<close>

lemma js_put_map_of: "map_of (js_put acc k v) = (map_of acc)(k \<mapsto> v)"
  by (induction acc) auto

lemma js_put_keys: "fst ` set (js_put acc k v) = insert k (fst ` set acc)"
proof -
  have "fst ` set (js_put acc k v) = dom (map_of (js_put acc k v))"
    by (simp add: dom_map_of_conv_image_fst)
  also have "\<dots> = insert k (dom (map_of acc))"
    by (simp add: js_put_map_of)
  finally show ?thesis
    by (simp add: dom_map_of_conv_image_fst)
qed

lemma js_put_distinct: "distinct (map fst acc) \<Longrightarrow> distinct (map fst (js_put acc k v))"
proof (induction acc)
  case Nil
  then show ?case by simp
next
  case (Cons p acc)
  obtain k' v' where p: "p = (k', v')" by (cases p)
  show ?case
  proof (cases "k' = k")
    case True
    with Cons.prems p show ?thesis by simp
  next
    case False
    have "k' \<notin> fst ` set (js_put acc k v)"
      using Cons.prems p False by (simp add: js_put_keys)
    with Cons p False show ?thesis by simp
  qed
qed

lemma count_status_plain:
  assumes "order_status x \<notin> set object_prototype_names"
  shows "count_status acc x =
           js_put acc (order_status x)
             (case map_of acc (order_status x) of
                None \<Rightarrow> Number 1
              | Some (Number n) \<Rightarrow> Number (n + 1)
              | Some Text \<Rightarrow> Text)"
proof -
  have "order_status x \<noteq> ''__proto__''"
    using assms by (auto simp: object_prototype_names_def)
  with assms show ?thesis
    by (simp add: count_status_def js_set_def js_get_def or_zero_plus_one_def
             split: option.splits tally.splits)
qed

lemma count_status_map_of:
  assumes "order_status x \<notin> set object_prototype_names"
  shows "map_of (count_status acc x) s =
           (if s = order_status x then bumped (map_of acc s) (Suc 0) else map_of acc s)"
  using assms
  by (simp add: count_status_plain js_put_map_of bumped_def split: option.splits tally.splits)

lemma bumped_bumped: "bumped (bumped cur (Suc 0)) c = bumped cur (Suc c)"
  by (simp add: bumped_def split: option.splits tally.splits)

lemma foldl_count_status_map_of:
  assumes "\<forall>x \<in> set os. order_status x \<notin> set object_prototype_names"
  shows "map_of (foldl count_status acc os) s =
           bumped (map_of acc s) (count_list (map order_status os) s)"
  using assms
proof (induction os arbitrary: acc)
  case Nil
  show ?case by (simp add: bumped_def split: option.splits tally.splits)
next
  case (Cons x os)
  have x: "order_status x \<notin> set object_prototype_names" using Cons.prems by simp
  have "map_of (foldl count_status (count_status acc x) os) s =
          bumped (map_of (count_status acc x) s) (count_list (map order_status os) s)"
    using Cons by simp
  then show ?case
    by (simp add: count_status_map_of [OF x] bumped_bumped)
qed

lemma count_status_distinct:
  assumes "order_status x \<notin> set object_prototype_names" "distinct (map fst acc)"
  shows "distinct (map fst (count_status acc x))"
  using assms by (simp add: count_status_plain js_put_distinct)


lemma tally_sum_put_new:
  "map_of acc k = None \<Longrightarrow> tally_sum (js_put acc k v) = tally_sum acc + tally_value v"
  by (induction acc) (auto simp: tally_sum_def split: if_splits)

lemma tally_sum_put_old:
  "distinct (map fst acc) \<Longrightarrow> map_of acc k = Some (Number n) \<Longrightarrow>
     tally_sum (js_put acc k (Number (Suc n))) = Suc (tally_sum acc)"
proof (induction acc)
  case Nil
  then show ?case by simp
next
  case (Cons p acc)
  obtain k' v' where p: "p = (k', v')" by (cases p)
  show ?case
  proof (cases "k' = k")
    case True
    with Cons.prems p show ?thesis by (simp add: tally_sum_def tally_value_def)
  next
    case False
    with Cons p show ?thesis by (simp add: tally_sum_def)
  qed
qed

lemma numbers_only_map_of:
  "numbers_only acc \<Longrightarrow> map_of acc k = Some v \<Longrightarrow> \<exists>n. v = Number n \<and> 0 < n"
  by (auto simp: numbers_only_def dest!: map_of_SomeD)

lemma js_put_subset: "set (js_put acc k v) \<subseteq> insert (k, v) (set acc)"
  by (induction acc) (auto split: if_splits)

lemma js_put_numbers_only:
  assumes "numbers_only acc" "0 < n"
  shows "numbers_only (js_put acc k (Number n))"
  unfolding numbers_only_def
proof
  fix p assume "p \<in> set (js_put acc k (Number n))"
  then have "p = (k, Number n) \<or> p \<in> set acc"
    using js_put_subset [of acc k "Number n"] by auto
  then show "\<exists>m. snd p = Number m \<and> 0 < m"
    using assms by (auto simp: numbers_only_def)
qed

lemma count_status_sum:
  assumes "order_status x \<notin> set object_prototype_names" "distinct (map fst acc)" "numbers_only acc"
  shows "tally_sum (count_status acc x) = tally_sum acc + 1 \<and> numbers_only (count_status acc x)"
proof (cases "map_of acc (order_status x)")
  case None
  with assms show ?thesis
    by (simp add: count_status_plain tally_sum_put_new tally_value_def js_put_numbers_only)
next
  case (Some v)
  then obtain n where n: "v = Number n" using assms(3) numbers_only_map_of by blast
  have "tally_sum (js_put acc (order_status x) (Number (Suc n))) = Suc (tally_sum acc)"
    using assms(2) Some n by (simp only: tally_sum_put_old)
  moreover have "numbers_only (js_put acc (order_status x) (Number (Suc n)))"
    using assms(3) by (simp add: js_put_numbers_only)
  moreover have "count_status acc x = js_put acc (order_status x) (Number (Suc n))"
    using Some n by (simp add: count_status_plain [OF assms(1)])
  ultimately show ?thesis by simp
qed

lemma foldl_count_status_sum:
  assumes "\<forall>x \<in> set os. order_status x \<notin> set object_prototype_names"
    "distinct (map fst acc)" "numbers_only acc"
  shows "tally_sum (foldl count_status acc os) = tally_sum acc + length os
         \<and> numbers_only (foldl count_status acc os)"
  using assms
proof (induction os arbitrary: acc)
  case Nil
  then show ?case by simp
next
  case (Cons x os)
  have x: "order_status x \<notin> set object_prototype_names" using Cons.prems by simp
  note step = count_status_sum [OF x Cons.prems(2) Cons.prems(3)]
  have d: "distinct (map fst (count_status acc x))"
    using x Cons.prems(2) by (rule count_status_distinct)
  have "tally_sum (foldl count_status (count_status acc x) os) =
          tally_sum (count_status acc x) + length os
        \<and> numbers_only (foldl count_status (count_status acc x) os)"
    using Cons.IH [OF _ d] step Cons.prems(1) by simp
  with step show ?case by simp
qed






text \<open>
  The same holds for every list in which no status names a property that an object literal
  inherits. A status that does, which the orders service never writes, meets a truthy
  inherited value in the empty accumulator, and its entry is a string.
\<close>

lemma histogram_plain_statuses:
  assumes "\<forall>x \<in> set os. order_status x \<notin> set object_prototype_names"
  shows "map_of (histogram os) s =
           (if s \<in> order_status ` set os
            then Some (Number (count_list (map order_status os) s)) else None)
       \<and> tally_sum (histogram os) = length os"
proof -
  have c: "(count_list (map order_status os) s = 0) = (s \<notin> order_status ` set os)"
    by (simp add: count_list_0_iff)
  have "map_of (histogram os) s = bumped None (count_list (map order_status os) s)"
    using foldl_count_status_map_of [OF assms, of "[]" s] by (simp add: histogram_def)
  moreover have "tally_sum (histogram os) = length os"
    using foldl_count_status_sum [OF assms, of "[]"]
    by (simp add: histogram_def tally_sum_def numbers_only_def)
  ultimately show ?thesis
    using c by (auto simp: bumped_def)
qed

lemma histogram_inherited_name:
  "histogram [\<lparr>order_id = ''o1'', userId = ''u1'', order_status = ''constructor''\<rparr>]
     = [(''constructor'', Text)]"
  by (simp add: histogram_def count_status_def js_set_def js_get_def
                or_zero_plus_one_def object_prototype_names_def)

section \<open>Properties of the circuits\<close>

lemma resolved_reply_is_success:
  assumes "validateStatus st" and "state b = Closed"
  shows "invoke cfg fallback now b (circuit_action (HttpReply st e))
           = \<lparr>breaker_after = record_success (roll cfg now b), yielded = e, attempted = True\<rparr>
       \<and> state (record_success (roll cfg now b)) = Closed"
  using assms
  by (simp add: invoke_def circuit_action_def axios_def roll_def record_success_def Let_def)

lemma error_status_is_failure:
  assumes "\<not> validateStatus st" and "state b = Closed"
  shows "invoke cfg fallback now b (circuit_action (HttpReply st e))
           = \<lparr>breaker_after = record_failure cfg now (roll cfg now b), yielded = fallback,
              attempted = True\<rparr>
       \<and> failureCount (record_failure cfg now (roll cfg now b))
           = failureCount (roll cfg now b) + 1"
  using assms
  by (simp add: invoke_def circuit_action_def axios_def roll_def record_failure_def Let_def)

text \<open>
  C1, evaluated on the code. The users service answers a registration that fails validation
  with status 400 and an envelope with \<open>success = False\<close>. The HTTP client rejects a reply
  with that status, so the action of the circuit rejects: the breaker counts a failure and no
  success, and the forwarder gets the fallback envelope, which it answers with 500. The
  backend's envelope never reaches the status table.
\<close>

theorem business_failure_trips_breaker:
  "status (snd (users_service sample_externals sample_db PostRegister anonymous)) = 400
   \<and> error_code (body (snd (users_service sample_externals sample_db PostRegister anonymous)))
       = Some ''VALIDATION_ERROR''
   \<and> circuit_action
        (reply_of (snd (users_service sample_externals sample_db PostRegister anonymous)))
       = Rejected
   \<and> failureCount (breaker_after (usersCircuit_fire 0 initial_breaker
        (reply_of (snd (users_service sample_externals sample_db PostRegister anonymous))))) = 1
   \<and> successCount (breaker_after (usersCircuit_fire 0 initial_breaker
        (reply_of (snd (users_service sample_externals sample_db PostRegister anonymous))))) = 0
   \<and> response (forwardRequest Users
        (usersCircuit_at 0 initial_breaker
           (\<lambda>u opts. reply_of (snd (users_service sample_externals sample_db PostRegister anonymous))))
        ''/v1/users/register'' sample_request)
       = \<lparr>status = 500, body = usersCircuit_fallback\<rparr>"
  by (simp add: users_service_def post_register_def sample_externals_def anonymous_def
                failure_def error_code_def usersCircuit_fire_def usersCircuit_at_def reply_of_def
                invoke_def circuit_action_def forwardRequest_def
                axios_def validateStatus_def roll_def cooled_down_def record_failure_def
                threshold_exceeded_def initial_breaker_def circuitOptions_def Let_def
                statusCode_def usersCircuit_fallback_def)

section \<open>Properties of the rate limiters\<close>

lemma strict_route_denies:
  assumes "strict ls clientKey = Some h"
      and "5 \<le> hit_count h"
      and "now < window_from h + windowMs authLimiter"
  shows "status (response (snd (strict_route u ls now clientKey circuit req))) = 429
       \<and> error_code (body (response (snd (strict_route u ls now clientKey circuit req))))
           = Some ''RATE_LIMIT_EXCEEDED''
       \<and> \<not> success (body (response (snd (strict_route u ls now clientKey circuit req))))
       \<and> fired (snd (strict_route u ls now clientKey circuit req)) = []
       \<and> strict (fst (strict_route u ls now clientKey circuit req)) clientKey
           = strict ls clientKey"
proof -
  have a: "check authLimiter now clientKey (strict ls) = (False, (strict ls)(clientKey \<mapsto> h))"
    using assms by (simp add: check_def current_hits_def authLimiter_def Let_def)
  have s: "(strict ls)(clientKey \<mapsto> h) = strict ls"
    using assms(1) by (auto simp: fun_eq_iff)
  show ?thesis
  proof (cases "check limiter now clientKey (general ls)")
    case (Pair allowed g)
    then show ?thesis
      using a s assms(1)
      by (cases allowed)
         (simp_all add: strict_route_def too_many_def error_code_def limiter_def authLimiter_def)
  qed
qed

text \<open>
  C8. Once the strict limiter has counted 5 requests of a client in a window that is still
  running, the next request of that client to the registration route or to the login route
  is answered with 429 and code \<open>RATE_LIMIT_EXCEEDED\<close>; no circuit is fired and the strict
  count stays as it is.
\<close>

theorem rate_limit_sixth:
  assumes "strict ls clientKey = Some h"
      and "5 \<le> hit_count h"
      and "now < window_from h + windowMs authLimiter"
      and "route = post_users_register \<or> route = post_users_login"
  shows "status (response (snd (route ls now clientKey circuit req))) = 429
       \<and> error_code (body (response (snd (route ls now clientKey circuit req))))
           = Some ''RATE_LIMIT_EXCEEDED''
       \<and> \<not> success (body (response (snd (route ls now clientKey circuit req))))
       \<and> fired (snd (route ls now clientKey circuit req)) = []
       \<and> strict (fst (route ls now clientKey circuit req)) clientKey = strict ls clientKey"
  using assms(4) strict_route_denies [OF assms(1,2,3)]
  by (auto simp: post_users_register_def post_users_login_def)

lemma five_registrations_counted:
  "strict (fst (register_at no_hits [0, 1000, 2000, 3000, 4000] ''10.0.0.7''
             (\<lambda>u opts. Fulfilled sample_user_envelope) sample_request)) ''10.0.0.7''
     = Some \<lparr>hit_count = 5, window_from = 0\<rparr>
   \<and> snd (register_at no_hits [0, 1000, 2000, 3000, 4000] ''10.0.0.7''
             (\<lambda>u opts. Fulfilled sample_user_envelope) sample_request)
     = [200, 200, 200, 200, 200]"
  by (simp add: no_hits_def post_users_register_def strict_route_def check_def current_hits_def
                limiter_def authLimiter_def forwardRequest_def statusCode_def
                sample_user_envelope_def Let_def)

theorem rate_limit_sixth_witness:
  "status (response (snd (post_users_register
       (fst (register_at no_hits [0, 1000, 2000, 3000, 4000] ''10.0.0.7''
               (\<lambda>u opts. Fulfilled sample_user_envelope) sample_request))
       5000 ''10.0.0.7'' (\<lambda>u opts. Fulfilled sample_user_envelope) sample_request))) = 429
   \<and> fired (snd (post_users_register
       (fst (register_at no_hits [0, 1000, 2000, 3000, 4000] ''10.0.0.7''
               (\<lambda>u opts. Fulfilled sample_user_envelope) sample_request))
       5000 ''10.0.0.7'' (\<lambda>u opts. Fulfilled sample_user_envelope) sample_request)) = []"
  using rate_limit_sixth [of
      "fst (register_at no_hits [0, 1000, 2000, 3000, 4000] ''10.0.0.7''
              (\<lambda>u opts. Fulfilled sample_user_envelope) sample_request)"
      "''10.0.0.7''" "\<lparr>hit_count = 5, window_from = 0\<rparr>" 5000 post_users_register
      "\<lambda>u opts. Fulfilled sample_user_envelope" sample_request]
    five_registrations_counted
  by (simp add: authLimiter_def)

section \<open>Properties of the backends\<close>










lemma sanitizeUser_no_hash: "''passwordHash'' \<notin> fst ` set (sanitizeUser u)"
  by (auto simp: sanitizeUser_def)

lemma no_hash_failure: "no_hash (failure st c m)"
  by (simp add: no_hash_def failure_def)

lemma no_hash_profile: "no_hash (ok st (Profile (sanitizeUser u)))"
  by (simp add: no_hash_def ok_def sanitizeUser_no_hash)

lemma no_hash_authMiddleware:
  "authMiddleware verify h = Inl (denied :: payload response) \<Longrightarrow> no_hash denied"
  by (auto simp: authMiddleware_def no_hash_failure split: option.splits if_splits)

lemma no_hash_post_register: "no_hash (snd (post_register ext db req))"
proof (cases "validate_register ext (body_text req)")
  case (Inl msg)
  then show ?thesis by (simp add: post_register_def no_hash_failure)
next
  case (Inr v)
  show ?thesis
  proof (cases "findUserByEmail db (reg_email v)")
    case None
    with Inr show ?thesis
      by (simp add: post_register_def Let_def no_hash_def ok_def)
  next
    case (Some existing)
    with Inr show ?thesis by (simp add: post_register_def no_hash_failure)
  qed
qed

lemma no_hash_post_login: "no_hash (snd (post_login ext db req))"
proof (cases "validate_login ext (body_text req)")
  case (Inl msg)
  then show ?thesis by (simp add: post_login_def no_hash_failure)
next
  case (Inr v)
  show ?thesis
  proof (cases "findUserByEmail db (login_email v)")
    case None
    with Inr show ?thesis by (simp add: post_login_def no_hash_failure)
  next
    case (Some u)
    have ok: "no_hash (ok 200 (LoggedIn t (sanitizeUser u)))" for t
      by (simp add: no_hash_def ok_def sanitizeUser_no_hash)
    from Inr Some show ?thesis
      by (simp add: post_login_def no_hash_failure internal_error_def ok
               split: option.splits jv.splits)
  qed
qed

lemma no_hash_get_profile: "no_hash (snd (get_profile db caller))"
  by (simp add: get_profile_def no_hash_failure no_hash_profile split: option.splits)

lemma no_hash_get_user_by_id: "no_hash (snd (get_user_by_id db i))"
  by (simp add: get_user_by_id_def no_hash_failure no_hash_profile split: option.splits)

lemma no_hash_put_profile: "no_hash (snd (put_profile ext db caller req))"
proof (cases "validate_update ext (body_text req)")
  case (Inl msg)
  then show ?thesis by (simp add: put_profile_def no_hash_failure)
next
  case (Inr v)
  show ?thesis
  proof (cases "findUserById db (ident_id caller)")
    case None
    with Inr show ?thesis by (simp add: put_profile_def no_hash_failure)
  next
    case (Some u)
    with Inr show ?thesis
      by (simp add: put_profile_def Let_def no_hash_failure no_hash_profile)
  qed
qed

lemma no_hash_get_users: "no_hash (snd (get_users db req))"
proof -
  have l: "no_hash (ok 200 (UserList (map sanitizeUser us) pg))" for us pg
    by (simp add: no_hash_def ok_def list_all_iff sanitizeUser_no_hash)
  show ?thesis
    by (simp add: get_users_def Let_def l no_hash_failure internal_error_def
             split: option.splits)
qed

lemma no_hash_users_service: "no_hash (snd (users_service ext db route req))"
proof (cases route)
  case UsersHealth
  then show ?thesis by (simp add: users_service_def no_hash_def ok_def)
next
  case PostRegister
  then show ?thesis by (simp add: users_service_def no_hash_post_register)
next
  case PostLogin
  then show ?thesis by (simp add: users_service_def no_hash_post_login)
next
  case GetProfile
  then show ?thesis
    by (cases "authMiddleware (jwt_verify ext) (auth_header req) :: payload response + identity")
       (simp_all add: users_service_def no_hash_get_profile no_hash_authMiddleware)
next
  case PutProfile
  then show ?thesis
    by (cases "authMiddleware (jwt_verify ext) (auth_header req) :: payload response + identity")
       (simp_all add: users_service_def no_hash_put_profile no_hash_authMiddleware)
next
  case GetUsers
  have d: "no_hash \<lparr>status = st, body = \<lparr>success = False, data = None, error = Some e\<rparr>\<rparr>" for st e
    by (simp add: no_hash_def)
  from GetUsers show ?thesis
    by (cases "authMiddleware (jwt_verify ext) (auth_header req) :: payload response + identity")
       (simp_all add: users_service_def no_hash_get_users no_hash_authMiddleware d
                 split: option.splits)
next
  case (GetUserById i)
  then show ?thesis by (simp add: users_service_def no_hash_get_user_by_id)
qed

text \<open>
  C10. Whatever the store holds and whatever the request is, no user object in a response of
  the users service (login, profile, profile update, user list, user by id, and registration
  as well) has a \<open>passwordHash\<close> property.
\<close>

theorem responses_without_hash:
  assumes "data (body (snd (users_service ext db route req))) = Some p"
      and "u \<in> set (payload_users p)"
  shows "''passwordHash'' \<notin> fst ` set u"
  using assms no_hash_users_service [of ext db route req]
  by (simp add: no_hash_def list_all_iff)

theorem responses_without_hash_witness:
  "map_of sample_stored_user ''passwordHash'' = Some (Str ''$2a$10$abc'')
   \<and> data (body (snd (users_service sample_externals sample_db PostLogin anonymous)))
       = Some (LoggedIn ''tok'' (sanitizeUser sample_stored_user))
   \<and> ''passwordHash'' \<notin> fst ` set (sanitizeUser sample_stored_user)"
  using responses_without_hash [of sample_externals sample_db PostLogin anonymous
      "LoggedIn ''tok'' (sanitizeUser sample_stored_user)" "sanitizeUser sample_stored_user"]
  by (simp add: users_service_def post_login_def sample_externals_def sample_db_def
                sample_stored_user_def findUserByEmail_def ok_def)

end
